theory Spec2Isabelle
  imports Main
begin

section \<open>Registry credentials of watchtower: container/trust.go\<close>

text \<open>
  The file resolves the credentials of a registry for a repository reference: a chain of
  backends (environment variables, then the docker configuration) is tried in order and
  the credential found is encoded for the \<open>X-Registry-Auth\<close> header.

  The functions of trust.go are modelled one by one. What they call outside the
  repository (the process environment, docker's reference parser, its configuration
  loader, its credential stores, its encoder and the logger) is not code of this
  repository: the answers of those calls are the fields of a record \<open>externals\<close>, and
  every such call is written to a trace, so that what a run has consulted can be read
  from its result.
\<close>

subsection \<open>Data\<close>

text \<open>A Go \<open>error\<close> value; \<open>nil\<close> is \<open>None\<close> of \<open>error option\<close>.\<close>

datatype error = Error string

text \<open>
  \<open>types.AuthConfig\<close> of the docker API: a struct of seven strings. Its zero value
  \<open>types.AuthConfig{}\<close> has every field empty.
\<close>

record AuthConfig =
  Username :: string
  Password :: string
  Auth :: string
  Email :: string
  ServerAddress :: string
  IdentityToken :: string
  RegistryToken :: string

definition AuthConfig_zero :: AuthConfig where
  "AuthConfig_zero =
     \<lparr>Username = '''', Password = '''', Auth = '''', Email = '''',
      ServerAddress = '''', IdentityToken = '''', RegistryToken = ''''\<rparr>"

text \<open>
  \<open>configfile.ConfigFile\<close>: the two fields that trust.go reads. The field
  \<open>CredentialsStore\<close> is named \<open>CredentialsStore_field\<close> here, since the function of
  trust.go has the same name.
\<close>

record ConfigFile =
  CredentialsStore_field :: string
  CredentialHelpers :: "string \<rightharpoonup> string"

text \<open>
  \<open>credentials.Store\<close>: what \<open>credentials.NewNativeStore(&configFile, helper)\<close> and
  \<open>credentials.NewFileStore(&configFile)\<close> build.
\<close>

datatype Store = NativeStore ConfigFile string | FileStore ConfigFile

text \<open>A call either returns or panics (a nil pointer dereference, an index out of range).\<close>

datatype 'a outcome = Returns 'a | Panics

text \<open>The calls that leave the repository, in the order a run makes them.\<close>

datatype event =
    Getenv string
  | ReferenceParse string
  | CliconfigLoad string
  | StoreGet Store string
  | EncodeAuthToBase64 AuthConfig
  | LogErrorf "error option"
  | LogDebugf "AuthConfig option" string
  | LogDebug string

text \<open>
  What the outside answers. \<open>os_Getenv\<close> gives the empty string for a variable that is
  not set, as Go's does. \<open>reference_Parse\<close> gives the repository and the error (its
  second result, the tag, is dropped by trust.go). \<open>cliconfig_Load\<close> gives a pointer
  (\<open>None\<close> is nil) and an error.
\<close>

record externals =
  os_Getenv :: "string \<Rightarrow> string"
  reference_Parse :: "string \<Rightarrow> string \<times> error option"
  cliconfig_Load :: "string \<Rightarrow> ConfigFile option \<times> error option"
  Store_Get :: "Store \<Rightarrow> string \<Rightarrow> AuthConfig \<times> error option"
  command_EncodeAuthToBase64 :: "AuthConfig \<Rightarrow> string \<times> error option"

type_synonym authResult = "AuthConfig option \<times> error option"

text \<open>\<open>type authBackend func(string) (*types.AuthConfig, error)\<close>, over a state \<open>'s\<close>.\<close>

type_synonym 's authBackend = "string \<Rightarrow> 's \<Rightarrow> authResult outcome \<times> 's"

subsection \<open>strings.Split\<close>

text \<open>
  Go's \<open>strings.Split(s, sep)\<close>: the pieces of \<open>s\<close> between the occurrences of
  \<open>sep\<close>, found from the left; with an empty separator, the characters of \<open>s\<close>.
  \<open>Split_from sep cur rest\<close> has read \<open>cur\<close> of the current piece.
\<close>

function Split_from :: "string \<Rightarrow> string \<Rightarrow> string \<Rightarrow> string list" where
  "Split_from sep cur [] = [cur]"
| "Split_from sep cur (c # cs) =
     (if sep \<noteq> [] \<and> take (length sep) (c # cs) = sep
      then cur # Split_from sep [] (drop (length sep) (c # cs))
      else Split_from sep (cur @ [c]) cs)"
  by pat_completeness auto
termination
  by (relation "measure (\<lambda>(sep, cur, rest). length rest)") auto

definition strings_Split :: "string \<Rightarrow> string \<Rightarrow> string list" where
  "strings_Split s sep = (if sep = [] then map (\<lambda>c. [c]) s else Split_from sep [] s)"

subsection \<open>The functions of trust.go\<close>

text \<open>
  \<open>firstValidAuth\<close>: the loop over the backends, leaving it at the first backend whose
  credential or error is not nil. A panic of a backend ends the run.
\<close>

fun firstValidAuth :: "string \<Rightarrow> 's authBackend list \<Rightarrow> 's \<Rightarrow> authResult outcome \<times> 's" where
  "firstValidAuth repo [] s = (Returns (None, None), s)"
| "firstValidAuth repo (backend # backends) s =
     (case backend repo s of
        (Panics, s') \<Rightarrow> (Panics, s')
      | (Returns (auth, err), s') \<Rightarrow>
          if auth \<noteq> None \<or> err \<noteq> None then (Returns (auth, err), s')
          else firstValidAuth repo backends s')"

definition authFromEnv :: "externals \<Rightarrow> event list authBackend" where
  "authFromEnv X = (\<lambda>_ t.
     let username = os_Getenv X ''REPO_USER'';
         password = os_Getenv X ''REPO_PASS'';
         t' = t @ [Getenv ''REPO_USER'', Getenv ''REPO_PASS'']
     in if username \<noteq> '''' \<and> password \<noteq> ''''
        then (Returns (Some (AuthConfig_zero\<lparr>Username := username, Password := password\<rparr>), None), t')
        else (Returns (None, None), t'))"

definition ParseServerAddress ::
    "externals \<Rightarrow> string \<Rightarrow> event list \<Rightarrow> (string \<times> error option) outcome \<times> event list" where
  "ParseServerAddress X ref t =
     (let (repository, err) = reference_Parse X ref;
          t' = t @ [ReferenceParse ref]
      in if err \<noteq> None then (Returns (ref, err), t')
         else (case strings_Split repository ''/'' of
                 [] \<Rightarrow> (Panics, t')
               | part # _ \<Rightarrow> (Returns (part, None), t')))"

definition CredentialsStore :: "ConfigFile \<Rightarrow> string \<Rightarrow> Store" where
  "CredentialsStore configFile server =
     (if CredentialsStore_field configFile \<noteq> ''''
      then NativeStore configFile (CredentialsStore_field configFile)
      else (case CredentialHelpers configFile server of
              Some helper \<Rightarrow> NativeStore configFile helper
            | None \<Rightarrow> FileStore configFile))"

text \<open>
  \<open>authFromDockerConfig\<close>. The error of \<open>ParseServerAddress\<close> is assigned to \<open>err\<close>
  and overwritten by the one of \<open>cliconfig.Load\<close>; the error of \<open>credStore.Get\<close> is
  assigned to \<open>err\<close> and not read again.
\<close>

definition authFromDockerConfig :: "externals \<Rightarrow> event list authBackend" where
  "authFromDockerConfig X = (\<lambda>ref t.
     case ParseServerAddress X ref t of
       (Panics, t1) \<Rightarrow> (Panics, t1)
     | (Returns (server, _), t1) \<Rightarrow>
         let configDir0 = os_Getenv X ''DOCKER_CONFIG'';
             configDir = (if configDir0 = '''' then ''/'' else configDir0);
             (configFile, err) = cliconfig_Load X configDir;
             t2 = t1 @ [Getenv ''DOCKER_CONFIG'', CliconfigLoad configDir]
         in if err \<noteq> None then (Returns (None, err), t2 @ [LogErrorf err])
            else (case configFile of
                    None \<Rightarrow> (Panics, t2)
                  | Some cf \<Rightarrow>
                      let credStore = CredentialsStore cf server;
                          (auth, _) = Store_Get X credStore server;
                          t3 = t2 @ [StoreGet credStore server]
                      in if auth = AuthConfig_zero then (Returns (None, None), t3)
                         else (Returns (Some auth, None), t3)))"

text \<open>\<open>EncodeAuth\<close> dereferences its argument: a nil pointer panics.\<close>

definition EncodeAuth ::
    "externals \<Rightarrow> AuthConfig option \<Rightarrow> event list \<Rightarrow> (string \<times> error option) outcome \<times> event list" where
  "EncodeAuth X auth t =
     (case auth of
        None \<Rightarrow> (Panics, t)
      | Some a \<Rightarrow> (Returns (command_EncodeAuthToBase64 X a), t @ [EncodeAuthToBase64 a]))"

definition EncodedAuth ::
    "externals \<Rightarrow> string \<Rightarrow> event list \<Rightarrow> (string \<times> error option) outcome \<times> event list" where
  "EncodedAuth X ref t =
     (case firstValidAuth ref [authFromEnv X, authFromDockerConfig X] t of
        (Panics, t1) \<Rightarrow> (Panics, t1)
      | (Returns (auth, err), t1) \<Rightarrow>
          if err \<noteq> None then EncodeAuth X auth (t1 @ [LogDebugf auth ref])
          else (Returns ('''', err), t1))"

definition DefaultAuthHandler :: "event list \<Rightarrow> (string \<times> error option) outcome \<times> event list" where
  "DefaultAuthHandler t =
     (Returns ('''', None),
      t @ [LogDebug ''Authentication request was rejected. Trying again without authentication''])"

subsection \<open>Running a prefix of the chain\<close>

text \<open>
  \<open>absent_run repo backends s\<close> runs the backends in order from the state \<open>s\<close> and is
  the state they leave when each of them returns a nil credential and a nil error;
  it is \<open>None\<close> as soon as one of them returns anything else or panics.
\<close>

fun absent_run :: "string \<Rightarrow> 's authBackend list \<Rightarrow> 's \<Rightarrow> 's option" where
  "absent_run repo [] s = Some s"
| "absent_run repo (backend # backends) s =
     (case backend repo s of
        (Returns (None, None), s') \<Rightarrow> absent_run repo backends s'
      | _ \<Rightarrow> None)"

subsection \<open>A concrete outside world\<close>

text \<open>
  A docker configuration with no global credentials store and a helper for one
  registry, and one with nothing in it.
\<close>

definition example_cf :: ConfigFile where
  "example_cf = \<lparr>CredentialsStore_field = '''',
                 CredentialHelpers = [''gcr.io'' \<mapsto> ''gcloud'']\<rparr>"

definition empty_cf :: ConfigFile where
  "empty_cf = \<lparr>CredentialsStore_field = '''', CredentialHelpers = Map.empty\<rparr>"

text \<open>A parser that refuses the empty reference and references with a space.\<close>

definition example_parse :: "string \<Rightarrow> string \<times> error option" where
  "example_parse ref =
     (if ref = '''' \<or> CHR '' '' \<in> set ref
      then ('''', Some (Error ''invalid reference format''))
      else (ref, None))"

text \<open>The configuration is readable in the directory \<open>/\<close> only.\<close>

definition example_load :: "string \<Rightarrow> ConfigFile option \<times> error option" where
  "example_load dir =
     (if dir = ''/'' then (Some example_cf, None)
      else (Some empty_cf, Some (Error ''config.json: permission denied'')))"

text \<open>The configuration file is there and is not valid JSON.\<close>

definition broken_load :: "string \<Rightarrow> ConfigFile option \<times> error option" where
  "broken_load dir = (Some empty_cf, Some (Error ''config.json: unexpected end of JSON input''))"

text \<open>
  The file store knows one registry; the helper program of a native store is not
  installed, so its \<open>Get\<close> fails.
\<close>

definition example_get :: "Store \<Rightarrow> string \<Rightarrow> AuthConfig \<times> error option" where
  "example_get store server =
     (case store of
        FileStore cf \<Rightarrow>
          if server = ''quay.io''
          then (AuthConfig_zero\<lparr>Username := ''bob'', Password := ''hunter2''\<rparr>, None)
          else (AuthConfig_zero, None)
      | NativeStore cf helper \<Rightarrow>
          (AuthConfig_zero, Some (Error ''docker-credential helper not found in PATH'')))"

text \<open>The encoder on the credentials of the examples (base64 of the JSON object).\<close>

definition example_encode :: "AuthConfig \<Rightarrow> string \<times> error option" where
  "example_encode auth =
     (if auth = AuthConfig_zero\<lparr>Username := ''alice'', Password := ''secret''\<rparr>
      then (''eyJ1c2VybmFtZSI6ImFsaWNlIiwicGFzc3dvcmQiOiJzZWNyZXQifQ=='', None)
      else if auth = AuthConfig_zero\<lparr>Username := ''bob'', Password := ''hunter2''\<rparr>
      then (''eyJ1c2VybmFtZSI6ImJvYiIsInBhc3N3b3JkIjoiaHVudGVyMiJ9'', None)
      else (''e30='', None))"

definition example_externals ::
    "(string \<rightharpoonup> string) \<Rightarrow> (string \<Rightarrow> ConfigFile option \<times> error option) \<Rightarrow> externals" where
  "example_externals env load =
     \<lparr>os_Getenv = (\<lambda>name. case env name of None \<Rightarrow> '''' | Some v \<Rightarrow> v),
      reference_Parse = example_parse,
      cliconfig_Load = load,
      Store_Get = example_get,
      command_EncodeAuthToBase64 = example_encode\<rparr>"

section \<open>Properties\<close>

subsection \<open>Auxiliary facts\<close>

lemma Split_from_not_Nil: "Split_from sep cur rest \<noteq> []"
  by (induction sep cur rest rule: Split_from.induct) auto

lemma strings_Split_not_Nil: "sep \<noteq> [] \<Longrightarrow> strings_Split s sep \<noteq> []"
  by (simp add: strings_Split_def Split_from_not_Nil)

text \<open>\<open>parts[0]\<close> is always there, so \<open>ParseServerAddress\<close> returns.\<close>

lemma ParseServerAddress_Returns:
  "\<exists>server err. ParseServerAddress X ref t = (Returns (server, err), t @ [ReferenceParse ref])"
proof (cases "reference_Parse X ref")
  case (Pair repository err)
  show ?thesis
  proof (cases err)
    case None
    obtain part parts where "strings_Split repository ''/'' = part # parts"
      using strings_Split_not_Nil [of "''/''" repository]
      by (cases "strings_Split repository ''/''") auto
    with Pair None show ?thesis by (simp add: ParseServerAddress_def)
  next
    case (Some e)
    with Pair show ?thesis by (simp add: ParseServerAddress_def)
  qed
qed

lemma authFromEnv_present:
  "os_Getenv X ''REPO_USER'' \<noteq> '''' \<Longrightarrow> os_Getenv X ''REPO_PASS'' \<noteq> '''' \<Longrightarrow>
   authFromEnv X ref t =
     (Returns (Some (AuthConfig_zero\<lparr>Username := os_Getenv X ''REPO_USER'',
                                      Password := os_Getenv X ''REPO_PASS''\<rparr>), None),
      t @ [Getenv ''REPO_USER'', Getenv ''REPO_PASS''])"
  by (simp add: authFromEnv_def Let_def)

lemma authFromEnv_absent:
  "os_Getenv X ''REPO_USER'' = '''' \<or> os_Getenv X ''REPO_PASS'' = '''' \<Longrightarrow>
   authFromEnv X ref t = (Returns (None, None), t @ [Getenv ''REPO_USER'', Getenv ''REPO_PASS''])"
  by (auto simp add: authFromEnv_def Let_def)

lemma authFromDockerConfig_Load_error:
  assumes "cliconfig_Load X (if os_Getenv X ''DOCKER_CONFIG'' = '''' then ''/''
                             else os_Getenv X ''DOCKER_CONFIG'') = (cf, Some e)"
  shows "authFromDockerConfig X ref t =
           (Returns (None, Some e),
            t @ [ReferenceParse ref, Getenv ''DOCKER_CONFIG'',
                 CliconfigLoad (if os_Getenv X ''DOCKER_CONFIG'' = '''' then ''/''
                                else os_Getenv X ''DOCKER_CONFIG''),
                 LogErrorf (Some e)])"
proof -
  obtain server err where
    "ParseServerAddress X ref t = (Returns (server, err), t @ [ReferenceParse ref])"
    using ParseServerAddress_Returns by blast
  with assms show ?thesis
    by (simp add: authFromDockerConfig_def Let_def)
qed

lemma authFromDockerConfig_Load_ok:
  assumes "cliconfig_Load X (if os_Getenv X ''DOCKER_CONFIG'' = '''' then ''/''
                             else os_Getenv X ''DOCKER_CONFIG'') = (Some cf, None)"
      and "ParseServerAddress X ref t = (Returns (server, perr), t1)"
  shows "authFromDockerConfig X ref t =
           (Returns (if fst (Store_Get X (CredentialsStore cf server) server) = AuthConfig_zero
                     then (None, None)
                     else (Some (fst (Store_Get X (CredentialsStore cf server) server)), None)),
            t1 @ [Getenv ''DOCKER_CONFIG'',
                  CliconfigLoad (if os_Getenv X ''DOCKER_CONFIG'' = '''' then ''/''
                                 else os_Getenv X ''DOCKER_CONFIG''),
                  StoreGet (CredentialsStore cf server) server])"
  using assms
  by (simp add: authFromDockerConfig_def Let_def split: prod.splits)

text \<open>
  Every run of the configuration backend starts by parsing the reference, so a trace
  without that call is a trace of a run that did not enter it.
\<close>

lemma authFromDockerConfig_traced:
  "\<exists>t'. snd (authFromDockerConfig X ref t) = t @ ReferenceParse ref # t'"
proof -
  obtain server err where
    "ParseServerAddress X ref t = (Returns (server, err), t @ [ReferenceParse ref])"
    using ParseServerAddress_Returns by blast
  then show ?thesis
    by (auto simp add: authFromDockerConfig_def Let_def split: prod.splits option.splits)
qed

text \<open>Backends that return nil and nil are passed over, with the state they leave.\<close>

lemma firstValidAuth_append_absent:
  "absent_run repo pre s = Some s' \<Longrightarrow>
   firstValidAuth repo (pre @ rest) s = firstValidAuth repo rest s'"
proof (induction pre arbitrary: s)
  case Nil
  then show ?case by simp
next
  case (Cons b pre)
  then show ?case
    by (auto split: prod.splits outcome.splits option.splits)
qed

text \<open>The two branches of \<open>EncodedAuth\<close> after the chain has returned.\<close>

lemma EncodedAuth_nil_error:
  "firstValidAuth ref [authFromEnv X, authFromDockerConfig X] t = (Returns (auth, None), t1) \<Longrightarrow>
   EncodedAuth X ref t = (Returns ('''', None), t1)"
  by (simp add: EncodedAuth_def)

lemma EncodedAuth_error:
  "firstValidAuth ref [authFromEnv X, authFromDockerConfig X] t = (Returns (auth, Some e), t1) \<Longrightarrow>
   EncodedAuth X ref t = EncodeAuth X auth (t1 @ [LogDebugf auth ref])"
  by (simp add: EncodedAuth_def)

lemmas example_defs =
  example_externals_def example_parse_def example_load_def broken_load_def example_get_def
  example_encode_def example_cf_def empty_cf_def

lemmas eval_defs =
  EncodedAuth_def EncodeAuth_def authFromEnv_def authFromDockerConfig_def
  ParseServerAddress_def strings_Split_def CredentialsStore_def Let_def AuthConfig_zero_def
  example_defs

subsection \<open>EncodedAuth\<close>

text \<open>
  Claim C1. For every reference for which a backend of the chain yields a credential and
  a nil error, \<open>EncodedAuth\<close> should return the base64 encoding of that credential and
  a nil error.

  The code does not: the test after the chain is \<open>err != nil\<close>, so with a nil error
  \<open>EncodedAuth\<close> returns the empty string and never calls the encoder. With
  \<open>REPO_USER=alice\<close> and \<open>REPO_PASS=secret\<close> the chain yields that credential with
  a nil error, the encoder would give its base64 string, and \<open>EncodedAuth\<close> returns
  \<open>("", nil)\<close> after the two reads of the environment.
\<close>

theorem EncodedAuth_leaves_credential_unencoded:
  "firstValidAuth ''quay.io/team/app''
     [authFromEnv (example_externals [''REPO_USER'' \<mapsto> ''alice'', ''REPO_PASS'' \<mapsto> ''secret''] example_load),
      authFromDockerConfig (example_externals [''REPO_USER'' \<mapsto> ''alice'', ''REPO_PASS'' \<mapsto> ''secret''] example_load)] []
     = (Returns (Some (AuthConfig_zero\<lparr>Username := ''alice'', Password := ''secret''\<rparr>), None),
        [Getenv ''REPO_USER'', Getenv ''REPO_PASS''])
   \<and> command_EncodeAuthToBase64
       (example_externals [''REPO_USER'' \<mapsto> ''alice'', ''REPO_PASS'' \<mapsto> ''secret''] example_load)
       (AuthConfig_zero\<lparr>Username := ''alice'', Password := ''secret''\<rparr>)
     = (''eyJ1c2VybmFtZSI6ImFsaWNlIiwicGFzc3dvcmQiOiJzZWNyZXQifQ=='', None)
   \<and> EncodedAuth (example_externals [''REPO_USER'' \<mapsto> ''alice'', ''REPO_PASS'' \<mapsto> ''secret''] example_load)
       ''quay.io/team/app'' []
     = (Returns ('''', None), [Getenv ''REPO_USER'', Getenv ''REPO_PASS''])"
  by (simp add: eval_defs)

text \<open>
  Claim C2. With \<open>DOCKER_CONFIG\<close>, \<open>REPO_USER\<close> and \<open>REPO_PASS\<close> not set and no
  usable configuration file at the default path, \<open>EncodedAuth\<close> should return and never
  panic, and no error of a backend should make it panic.

  The code panics on every error of a backend that comes with a nil credential: by the
  same test \<open>err != nil\<close>, \<open>EncodeAuth\<close> is called on the nil pointer and
  dereferences it. Here the three variables are not set and \<open>cliconfig.Load("/")\<close>
  returns an error.
\<close>

theorem EncodedAuth_panics_on_Load_error:
  "os_Getenv (example_externals Map.empty broken_load) ''DOCKER_CONFIG'' = ''''
   \<and> os_Getenv (example_externals Map.empty broken_load) ''REPO_USER'' = ''''
   \<and> os_Getenv (example_externals Map.empty broken_load) ''REPO_PASS'' = ''''
   \<and> firstValidAuth ''quay.io/team/app''
       [authFromEnv (example_externals Map.empty broken_load),
        authFromDockerConfig (example_externals Map.empty broken_load)] []
     = (Returns (None, Some (Error ''config.json: unexpected end of JSON input'')),
        [Getenv ''REPO_USER'', Getenv ''REPO_PASS'', ReferenceParse ''quay.io/team/app'',
         Getenv ''DOCKER_CONFIG'', CliconfigLoad ''/'',
         LogErrorf (Some (Error ''config.json: unexpected end of JSON input''))])
   \<and> EncodedAuth (example_externals Map.empty broken_load) ''quay.io/team/app'' []
     = (Panics,
        [Getenv ''REPO_USER'', Getenv ''REPO_PASS'', ReferenceParse ''quay.io/team/app'',
         Getenv ''DOCKER_CONFIG'', CliconfigLoad ''/'',
         LogErrorf (Some (Error ''config.json: unexpected end of JSON input'')),
         LogDebugf None ''quay.io/team/app''])"
  by (simp add: eval_defs)

subsection \<open>The configuration backend\<close>

text \<open>
  Claim C3. If the \<open>Get\<close> call of the selected credential store fails, the configuration
  backend should return that error to its caller.

  The code assigns the error of \<open>credStore.Get\<close> and returns nil in its place. Here the
  registry \<open>gcr.io\<close> has a helper, the native store's \<open>Get\<close> fails, and the backend
  returns \<open>(nil, nil)\<close>.
\<close>

theorem authFromDockerConfig_drops_Get_error:
  "cliconfig_Load (example_externals Map.empty example_load) ''/'' = (Some example_cf, None)
   \<and> CredentialsStore example_cf ''gcr.io'' = NativeStore example_cf ''gcloud''
   \<and> Store_Get (example_externals Map.empty example_load) (NativeStore example_cf ''gcloud'') ''gcr.io''
     = (AuthConfig_zero, Some (Error ''docker-credential helper not found in PATH''))
   \<and> authFromDockerConfig (example_externals Map.empty example_load) ''gcr.io/project/app'' []
     = (Returns (None, None),
        [ReferenceParse ''gcr.io/project/app'', Getenv ''DOCKER_CONFIG'', CliconfigLoad ''/'',
         StoreGet (NativeStore example_cf ''gcloud'') ''gcr.io''])"
  by (simp add: eval_defs)

text \<open>
  Claim C4. When the reference does not parse, \<open>ParseServerAddress\<close> returns the raw
  reference as the server together with the parse error, and the steps that follow in the
  configuration backend (the selection of the store and its \<open>Get\<close>) use the raw
  reference as the server.
\<close>

theorem ParseServerAddress_fallback:
  assumes "reference_Parse X ref = (repository, Some e)"
  shows "ParseServerAddress X ref t = (Returns (ref, Some e), t @ [ReferenceParse ref])
     \<and> (cliconfig_Load X (if os_Getenv X ''DOCKER_CONFIG'' = '''' then ''/''
                           else os_Getenv X ''DOCKER_CONFIG'') = (Some cf, None) \<longrightarrow>
        authFromDockerConfig X ref t =
          (Returns (if fst (Store_Get X (CredentialsStore cf ref) ref) = AuthConfig_zero
                    then (None, None)
                    else (Some (fst (Store_Get X (CredentialsStore cf ref) ref)), None)),
           t @ [ReferenceParse ref, Getenv ''DOCKER_CONFIG'',
                CliconfigLoad (if os_Getenv X ''DOCKER_CONFIG'' = '''' then ''/''
                               else os_Getenv X ''DOCKER_CONFIG''),
                StoreGet (CredentialsStore cf ref) ref]))"
proof -
  have p: "ParseServerAddress X ref t = (Returns (ref, Some e), t @ [ReferenceParse ref])"
    using assms by (simp add: ParseServerAddress_def)
  show ?thesis
  proof (intro conjI impI)
    show "ParseServerAddress X ref t = (Returns (ref, Some e), t @ [ReferenceParse ref])"
      by (rule p)
  next
    assume "cliconfig_Load X (if os_Getenv X ''DOCKER_CONFIG'' = '''' then ''/''
                           else os_Getenv X ''DOCKER_CONFIG'') = (Some cf, None)"
    from authFromDockerConfig_Load_ok [OF this p]
    show "authFromDockerConfig X ref t =
          (Returns (if fst (Store_Get X (CredentialsStore cf ref) ref) = AuthConfig_zero
                    then (None, None)
                    else (Some (fst (Store_Get X (CredentialsStore cf ref) ref)), None)),
           t @ [ReferenceParse ref, Getenv ''DOCKER_CONFIG'',
                CliconfigLoad (if os_Getenv X ''DOCKER_CONFIG'' = '''' then ''/''
                               else os_Getenv X ''DOCKER_CONFIG''),
                StoreGet (CredentialsStore cf ref) ref])"
      by simp
  qed
qed

theorem ParseServerAddress_fallback_witness:
  "reference_Parse (example_externals Map.empty example_load) ''quay.io/my app''
     = ('''', Some (Error ''invalid reference format''))
   \<and> cliconfig_Load (example_externals Map.empty example_load) ''/'' = (Some example_cf, None)
   \<and> ParseServerAddress (example_externals Map.empty example_load) ''quay.io/my app'' []
     = (Returns (''quay.io/my app'', Some (Error ''invalid reference format'')),
        [ReferenceParse ''quay.io/my app''])
   \<and> authFromDockerConfig (example_externals Map.empty example_load) ''quay.io/my app'' []
     = (Returns (None, None),
        [ReferenceParse ''quay.io/my app'', Getenv ''DOCKER_CONFIG'', CliconfigLoad ''/'',
         StoreGet (FileStore example_cf) ''quay.io/my app''])"
proof -
  let ?X = "example_externals Map.empty example_load"
  have a: "reference_Parse ?X ''quay.io/my app'' = ('''', Some (Error ''invalid reference format''))"
    by (simp add: example_defs)
  have b: "cliconfig_Load ?X (if os_Getenv ?X ''DOCKER_CONFIG'' = '''' then ''/''
                              else os_Getenv ?X ''DOCKER_CONFIG'') = (Some example_cf, None)"
    by (simp add: example_defs)
  have c: "cliconfig_Load ?X ''/'' = (Some example_cf, None)"
    by (simp add: example_defs)
  have d: "os_Getenv ?X ''DOCKER_CONFIG'' = ''''"
    by (simp add: example_defs)
  have e: "CredentialsStore example_cf ''quay.io/my app'' = FileStore example_cf"
    by (simp add: CredentialsStore_def example_defs)
  have f: "Store_Get ?X (FileStore example_cf) ''quay.io/my app'' = (AuthConfig_zero, None)"
    by (simp add: example_defs)
  from ParseServerAddress_fallback [OF a, of "[]" example_cf] b
  show ?thesis
    by (simp add: a c d e f)
qed

subsection \<open>The chain\<close>

text \<open>
  Claim C5. For every reference and every list of backends, \<open>firstValidAuth\<close> returns
  the result of the first backend whose credential or error is not nil, and consults no
  later backend: the backends \<open>post\<close> after it are arbitrary and the final state is the
  one that backend left. If every backend returns nil and nil, so does
  \<open>firstValidAuth\<close>. The result holds at most one credential, the one of that backend.
\<close>

theorem firstValidAuth_first_definitive:
  "(absent_run repo pre s = Some s' \<and> backend repo s' = (Returns (auth, err), s'') \<and>
      (auth \<noteq> None \<or> err \<noteq> None) \<longrightarrow>
      firstValidAuth repo (pre @ backend # post) s = (Returns (auth, err), s''))
   \<and> (absent_run repo backends s = Some s' \<longrightarrow>
      firstValidAuth repo backends s = (Returns (None, None), s'))"
proof (intro conjI impI)
  assume h: "absent_run repo pre s = Some s' \<and> backend repo s' = (Returns (auth, err), s'') \<and>
      (auth \<noteq> None \<or> err \<noteq> None)"
  then have "firstValidAuth repo (pre @ backend # post) s = firstValidAuth repo (backend # post) s'"
    by (simp add: firstValidAuth_append_absent)
  also have "\<dots> = (Returns (auth, err), s'')"
    using h by auto
  finally show "firstValidAuth repo (pre @ backend # post) s = (Returns (auth, err), s'')" .
next
  assume "absent_run repo backends s = Some s'"
  then show "firstValidAuth repo backends s = (Returns (None, None), s')"
    using firstValidAuth_append_absent [of repo backends s s' "[]"] by simp
qed

theorem firstValidAuth_first_definitive_witness:
  "absent_run ''quay.io/team/app'' [authFromEnv (example_externals Map.empty example_load)] []
     = Some [Getenv ''REPO_USER'', Getenv ''REPO_PASS'']
   \<and> authFromDockerConfig (example_externals Map.empty example_load) ''quay.io/team/app''
       [Getenv ''REPO_USER'', Getenv ''REPO_PASS'']
     = (Returns (Some (AuthConfig_zero\<lparr>Username := ''bob'', Password := ''hunter2''\<rparr>), None),
        [Getenv ''REPO_USER'', Getenv ''REPO_PASS'', ReferenceParse ''quay.io/team/app'',
         Getenv ''DOCKER_CONFIG'', CliconfigLoad ''/'', StoreGet (FileStore example_cf) ''quay.io''])
   \<and> firstValidAuth ''quay.io/team/app''
       ([authFromEnv (example_externals Map.empty example_load)]
        @ authFromDockerConfig (example_externals Map.empty example_load)
        # [authFromDockerConfig (example_externals Map.empty broken_load)]) []
     = (Returns (Some (AuthConfig_zero\<lparr>Username := ''bob'', Password := ''hunter2''\<rparr>), None),
        [Getenv ''REPO_USER'', Getenv ''REPO_PASS'', ReferenceParse ''quay.io/team/app'',
         Getenv ''DOCKER_CONFIG'', CliconfigLoad ''/'', StoreGet (FileStore example_cf) ''quay.io''])
   \<and> absent_run ''docker.io/library/nginx''
       [authFromEnv (example_externals Map.empty example_load),
        authFromDockerConfig (example_externals Map.empty example_load)] []
     = Some [Getenv ''REPO_USER'', Getenv ''REPO_PASS'', ReferenceParse ''docker.io/library/nginx'',
         Getenv ''DOCKER_CONFIG'', CliconfigLoad ''/'', StoreGet (FileStore example_cf) ''docker.io'']
   \<and> firstValidAuth ''docker.io/library/nginx''
       [authFromEnv (example_externals Map.empty example_load),
        authFromDockerConfig (example_externals Map.empty example_load)] []
     = (Returns (None, None),
        [Getenv ''REPO_USER'', Getenv ''REPO_PASS'', ReferenceParse ''docker.io/library/nginx'',
         Getenv ''DOCKER_CONFIG'', CliconfigLoad ''/'', StoreGet (FileStore example_cf) ''docker.io''])"
proof -
  let ?X = "example_externals Map.empty example_load"
  let ?bob = "AuthConfig_zero\<lparr>Username := ''bob'', Password := ''hunter2''\<rparr>"
  let ?t1 = "[Getenv ''REPO_USER'', Getenv ''REPO_PASS'']"
  let ?t2 = "[Getenv ''REPO_USER'', Getenv ''REPO_PASS'', ReferenceParse ''quay.io/team/app'',
         Getenv ''DOCKER_CONFIG'', CliconfigLoad ''/'', StoreGet (FileStore example_cf) ''quay.io'']"
  let ?t3 = "[Getenv ''REPO_USER'', Getenv ''REPO_PASS'', ReferenceParse ''docker.io/library/nginx'',
         Getenv ''DOCKER_CONFIG'', CliconfigLoad ''/'', StoreGet (FileStore example_cf) ''docker.io'']"
  have a: "absent_run ''quay.io/team/app'' [authFromEnv ?X] [] = Some ?t1"
    by (simp add: eval_defs)
  have b: "authFromDockerConfig ?X ''quay.io/team/app'' ?t1 = (Returns (Some ?bob, None), ?t2)"
    by (simp add: eval_defs)
  have c: "absent_run ''docker.io/library/nginx'' [authFromEnv ?X, authFromDockerConfig ?X] []
             = Some ?t3"
    by (simp add: eval_defs)
  have d: "Some ?bob \<noteq> None \<or> (None :: error option) \<noteq> None"
    by simp
  from a b d
    firstValidAuth_first_definitive [of "''quay.io/team/app''" "[authFromEnv ?X]" "[]" ?t1
      "authFromDockerConfig ?X" "Some ?bob" None ?t2
      "[authFromDockerConfig (example_externals Map.empty broken_load)]"]
  have e: "firstValidAuth ''quay.io/team/app''
       ([authFromEnv ?X] @ authFromDockerConfig ?X
        # [authFromDockerConfig (example_externals Map.empty broken_load)]) []
     = (Returns (Some ?bob, None), ?t2)"
    by blast
  from c
    firstValidAuth_first_definitive [of "''docker.io/library/nginx''" "[]" "[]" ?t3
      "authFromEnv ?X" None None "[]" "[]" "[authFromEnv ?X, authFromDockerConfig ?X]"]
  have f: "firstValidAuth ''docker.io/library/nginx'' [authFromEnv ?X, authFromDockerConfig ?X] []
             = (Returns (None, None), ?t3)"
    by blast
  from a b c e f show ?thesis by blast
qed

text \<open>
  Claim C6. If \<open>REPO_USER\<close> and \<open>REPO_PASS\<close> are both non-empty, the chain of
  \<open>EncodedAuth\<close> returns exactly that pair with a nil error, and the configuration
  backend is not consulted: the trace grows by the two reads of the environment only
  (no parse of the reference, no load of the configuration, no store). If one of them is
  empty or not set, the environment backend returns nil and nil. It never returns an
  error.
\<close>

theorem env_credentials_resolve:
  "(os_Getenv X ''REPO_USER'' \<noteq> '''' \<and> os_Getenv X ''REPO_PASS'' \<noteq> '''' \<longrightarrow>
      firstValidAuth ref [authFromEnv X, authFromDockerConfig X] t =
        (Returns (Some (AuthConfig_zero\<lparr>Username := os_Getenv X ''REPO_USER'',
                                         Password := os_Getenv X ''REPO_PASS''\<rparr>), None),
         t @ [Getenv ''REPO_USER'', Getenv ''REPO_PASS'']))
   \<and> (os_Getenv X ''REPO_USER'' = '''' \<or> os_Getenv X ''REPO_PASS'' = '''' \<longrightarrow>
      authFromEnv X ref t =
        (Returns (None, None), t @ [Getenv ''REPO_USER'', Getenv ''REPO_PASS'']))
   \<and> (\<exists>auth. fst (authFromEnv X ref t) = Returns (auth, None))"
proof (intro conjI impI)
  assume "os_Getenv X ''REPO_USER'' \<noteq> '''' \<and> os_Getenv X ''REPO_PASS'' \<noteq> ''''"
  then show "firstValidAuth ref [authFromEnv X, authFromDockerConfig X] t =
        (Returns (Some (AuthConfig_zero\<lparr>Username := os_Getenv X ''REPO_USER'',
                                         Password := os_Getenv X ''REPO_PASS''\<rparr>), None),
         t @ [Getenv ''REPO_USER'', Getenv ''REPO_PASS''])"
    by (simp add: authFromEnv_present)
next
  assume "os_Getenv X ''REPO_USER'' = '''' \<or> os_Getenv X ''REPO_PASS'' = ''''"
  then show "authFromEnv X ref t =
        (Returns (None, None), t @ [Getenv ''REPO_USER'', Getenv ''REPO_PASS''])"
    by (rule authFromEnv_absent)
next
  show "\<exists>auth. fst (authFromEnv X ref t) = Returns (auth, None)"
    by (simp add: authFromEnv_def Let_def)
qed

theorem env_credentials_resolve_witness:
  "os_Getenv (example_externals [''REPO_USER'' \<mapsto> ''alice'', ''REPO_PASS'' \<mapsto> ''secret''] broken_load)
       ''REPO_USER'' = ''alice''
   \<and> os_Getenv (example_externals [''REPO_USER'' \<mapsto> ''alice'', ''REPO_PASS'' \<mapsto> ''secret''] broken_load)
       ''REPO_PASS'' = ''secret''
   \<and> firstValidAuth ''quay.io/team/app''
       [authFromEnv (example_externals [''REPO_USER'' \<mapsto> ''alice'', ''REPO_PASS'' \<mapsto> ''secret''] broken_load),
        authFromDockerConfig
          (example_externals [''REPO_USER'' \<mapsto> ''alice'', ''REPO_PASS'' \<mapsto> ''secret''] broken_load)] []
     = (Returns (Some (AuthConfig_zero\<lparr>Username := ''alice'', Password := ''secret''\<rparr>), None),
        [Getenv ''REPO_USER'', Getenv ''REPO_PASS''])
   \<and> os_Getenv (example_externals [''REPO_USER'' \<mapsto> ''alice''] example_load) ''REPO_PASS'' = ''''
   \<and> authFromEnv (example_externals [''REPO_USER'' \<mapsto> ''alice''] example_load) ''quay.io/team/app'' []
     = (Returns (None, None), [Getenv ''REPO_USER'', Getenv ''REPO_PASS''])"
proof -
  let ?X = "example_externals [''REPO_USER'' \<mapsto> ''alice'', ''REPO_PASS'' \<mapsto> ''secret''] broken_load"
  let ?Y = "example_externals [''REPO_USER'' \<mapsto> ''alice''] example_load"
  have a: "os_Getenv ?X ''REPO_USER'' = ''alice''"
    by (simp add: example_defs)
  have b: "os_Getenv ?X ''REPO_PASS'' = ''secret''"
    by (simp add: example_defs)
  have c: "os_Getenv ?Y ''REPO_PASS'' = ''''"
    by (simp add: example_defs)
  from env_credentials_resolve [of ?X "''quay.io/team/app''" "[]"]
  have d: "firstValidAuth ''quay.io/team/app'' [authFromEnv ?X, authFromDockerConfig ?X] []
     = (Returns (Some (AuthConfig_zero\<lparr>Username := ''alice'', Password := ''secret''\<rparr>), None),
        [Getenv ''REPO_USER'', Getenv ''REPO_PASS''])"
    by (simp add: a b)
  from env_credentials_resolve [of ?Y "''quay.io/team/app''" "[]"] c
  have e: "authFromEnv ?Y ''quay.io/team/app'' []
     = (Returns (None, None), [Getenv ''REPO_USER'', Getenv ''REPO_PASS''])"
    by simp
  from a b c d e show ?thesis by blast
qed

text \<open>
  Claim C7. If the configuration file cannot be loaded (\<open>cliconfig.Load\<close> returns an
  error), the configuration backend returns a nil credential with that error, for every
  reference; and when the environment backend is absent (one of its variables is empty),
  the chain returns the nil credential with that error: the absent result of the
  environment does not mask it.
\<close>

theorem Load_error_not_masked:
  assumes "cliconfig_Load X (if os_Getenv X ''DOCKER_CONFIG'' = '''' then ''/''
                             else os_Getenv X ''DOCKER_CONFIG'') = (cf, Some e)"
  shows "fst (authFromDockerConfig X ref t) = Returns (None, Some e)
     \<and> (os_Getenv X ''REPO_USER'' = '''' \<or> os_Getenv X ''REPO_PASS'' = '''' \<longrightarrow>
        fst (firstValidAuth ref [authFromEnv X, authFromDockerConfig X] t)
          = Returns (None, Some e))"
  using assms
  by (auto simp add: authFromDockerConfig_Load_error authFromEnv_absent)

theorem Load_error_not_masked_witness:
  "cliconfig_Load (example_externals [''DOCKER_CONFIG'' \<mapsto> ''/root/.docker''] example_load)
       ''/root/.docker''
     = (Some empty_cf, Some (Error ''config.json: permission denied''))
   \<and> os_Getenv (example_externals [''DOCKER_CONFIG'' \<mapsto> ''/root/.docker''] example_load)
       ''REPO_USER'' = ''''
   \<and> fst (authFromDockerConfig
            (example_externals [''DOCKER_CONFIG'' \<mapsto> ''/root/.docker''] example_load)
            ''quay.io/team/app'' [])
     = Returns (None, Some (Error ''config.json: permission denied''))
   \<and> fst (firstValidAuth ''quay.io/team/app''
            [authFromEnv (example_externals [''DOCKER_CONFIG'' \<mapsto> ''/root/.docker''] example_load),
             authFromDockerConfig
               (example_externals [''DOCKER_CONFIG'' \<mapsto> ''/root/.docker''] example_load)] [])
     = Returns (None, Some (Error ''config.json: permission denied''))"
proof -
  let ?X = "example_externals [''DOCKER_CONFIG'' \<mapsto> ''/root/.docker''] example_load"
  have a: "cliconfig_Load ?X (if os_Getenv ?X ''DOCKER_CONFIG'' = '''' then ''/''
                              else os_Getenv ?X ''DOCKER_CONFIG'')
             = (Some empty_cf, Some (Error ''config.json: permission denied''))"
    by (simp add: example_defs)
  have b: "cliconfig_Load ?X ''/root/.docker''
             = (Some empty_cf, Some (Error ''config.json: permission denied''))"
    by (simp add: example_defs)
  have c: "os_Getenv ?X ''REPO_USER'' = ''''"
    by (simp add: example_defs)
  from Load_error_not_masked [OF a, of "''quay.io/team/app''" "[]"] b c
  show ?thesis by blast
qed

text \<open>
  Claim C8. If the configuration loads and the store selected for the server derived
  from the reference returns the zero \<open>AuthConfig\<close> (whatever error comes with it), the
  configuration backend returns nil and nil; so with the environment variables empty or
  not set the whole chain returns nil and nil.
\<close>

theorem empty_credential_is_absent:
  assumes "cliconfig_Load X (if os_Getenv X ''DOCKER_CONFIG'' = '''' then ''/''
                             else os_Getenv X ''DOCKER_CONFIG'') = (Some cf, None)"
      and "fst (ParseServerAddress X ref t) = Returns (server, perr)"
      and "fst (Store_Get X (CredentialsStore cf server) server) = AuthConfig_zero"
  shows "fst (authFromDockerConfig X ref t) = Returns (None, None)
     \<and> (os_Getenv X ''REPO_USER'' = '''' \<or> os_Getenv X ''REPO_PASS'' = '''' \<longrightarrow>
        fst (firstValidAuth ref [authFromEnv X, authFromDockerConfig X] t)
          = Returns (None, None))"
proof -
  have p: "ParseServerAddress X ref u = (Returns (server, perr), u @ [ReferenceParse ref])" for u
    using assms(2) ParseServerAddress_Returns [of X ref u]
    by (auto simp add: ParseServerAddress_def Let_def split: prod.splits if_splits list.splits)
  have q: "fst (authFromDockerConfig X ref u) = Returns (None, None)" for u
    using authFromDockerConfig_Load_ok [OF assms(1) p [of u]] assms(3) by simp
  show ?thesis
  proof (intro conjI impI)
    show "fst (authFromDockerConfig X ref t) = Returns (None, None)"
      by (rule q)
  next
    assume "os_Getenv X ''REPO_USER'' = '''' \<or> os_Getenv X ''REPO_PASS'' = ''''"
    then have "authFromEnv X ref t =
        (Returns (None, None), t @ [Getenv ''REPO_USER'', Getenv ''REPO_PASS''])"
      by (rule authFromEnv_absent)
    then show "fst (firstValidAuth ref [authFromEnv X, authFromDockerConfig X] t)
          = Returns (None, None)"
      using q [of "t @ [Getenv ''REPO_USER'', Getenv ''REPO_PASS'']"]
      by (auto split: prod.splits outcome.splits)
  qed
qed

theorem empty_credential_is_absent_witness:
  "cliconfig_Load (example_externals Map.empty example_load) ''/'' = (Some example_cf, None)
   \<and> fst (ParseServerAddress (example_externals Map.empty example_load)
            ''docker.io/library/nginx'' [])
     = Returns (''docker.io'', None)
   \<and> Store_Get (example_externals Map.empty example_load)
       (CredentialsStore example_cf ''docker.io'') ''docker.io'' = (AuthConfig_zero, None)
   \<and> os_Getenv (example_externals Map.empty example_load) ''REPO_USER'' = ''''
   \<and> fst (authFromDockerConfig (example_externals Map.empty example_load)
            ''docker.io/library/nginx'' [])
     = Returns (None, None)
   \<and> fst (firstValidAuth ''docker.io/library/nginx''
            [authFromEnv (example_externals Map.empty example_load),
             authFromDockerConfig (example_externals Map.empty example_load)] [])
     = Returns (None, None)"
proof -
  let ?X = "example_externals Map.empty example_load"
  have a: "cliconfig_Load ?X (if os_Getenv ?X ''DOCKER_CONFIG'' = '''' then ''/''
                              else os_Getenv ?X ''DOCKER_CONFIG'') = (Some example_cf, None)"
    by (simp add: example_defs)
  have a': "cliconfig_Load ?X ''/'' = (Some example_cf, None)"
    by (simp add: example_defs)
  have b: "fst (ParseServerAddress ?X ''docker.io/library/nginx'' [])
             = Returns (''docker.io'', None)"
    by (simp add: eval_defs)
  have c': "Store_Get ?X (CredentialsStore example_cf ''docker.io'') ''docker.io''
             = (AuthConfig_zero, None)"
    by (simp add: eval_defs)
  then have c: "fst (Store_Get ?X (CredentialsStore example_cf ''docker.io'') ''docker.io'')
             = AuthConfig_zero"
    by simp
  have d: "os_Getenv ?X ''REPO_USER'' = ''''"
    by (simp add: example_defs)
  from empty_credential_is_absent [OF a b c] a' b c' d
  show ?thesis by blast
qed

subsection \<open>Selection of the store\<close>

text \<open>
  Claim C9. The store is a function of the configuration and the server: a non-empty
  global \<open>CredentialsStore\<close> selects the native store of that name, whatever helper the
  server has; otherwise a helper registered for the server selects the native store of
  that helper; otherwise the file store is selected.
\<close>

theorem CredentialsStore_priority:
  "(CredentialsStore_field cf \<noteq> '''' \<longrightarrow>
      CredentialsStore cf server = NativeStore cf (CredentialsStore_field cf))
   \<and> (CredentialsStore_field cf = '''' \<and> CredentialHelpers cf server = Some helper \<longrightarrow>
      CredentialsStore cf server = NativeStore cf helper)
   \<and> (CredentialsStore_field cf = '''' \<and> CredentialHelpers cf server = None \<longrightarrow>
      CredentialsStore cf server = FileStore cf)"
  by (simp add: CredentialsStore_def)

theorem CredentialsStore_priority_witness:
  "CredentialsStore_field (example_cf\<lparr>CredentialsStore_field := ''osxkeychain''\<rparr>) = ''osxkeychain''
   \<and> CredentialHelpers (example_cf\<lparr>CredentialsStore_field := ''osxkeychain''\<rparr>) ''gcr.io''
     = Some ''gcloud''
   \<and> CredentialsStore (example_cf\<lparr>CredentialsStore_field := ''osxkeychain''\<rparr>) ''gcr.io''
     = NativeStore (example_cf\<lparr>CredentialsStore_field := ''osxkeychain''\<rparr>) ''osxkeychain''
   \<and> CredentialsStore_field example_cf = '''' \<and> CredentialHelpers example_cf ''gcr.io'' = Some ''gcloud''
   \<and> CredentialsStore example_cf ''gcr.io'' = NativeStore example_cf ''gcloud''
   \<and> CredentialHelpers example_cf ''quay.io'' = None
   \<and> CredentialsStore example_cf ''quay.io'' = FileStore example_cf"
proof -
  let ?g = "example_cf\<lparr>CredentialsStore_field := ''osxkeychain''\<rparr>"
  have a: "CredentialsStore_field ?g = ''osxkeychain''"
    by simp
  have b: "CredentialHelpers ?g ''gcr.io'' = Some ''gcloud''"
    by (simp add: example_cf_def)
  have c: "CredentialsStore_field example_cf = ''''"
    by (simp add: example_cf_def)
  have d: "CredentialHelpers example_cf ''gcr.io'' = Some ''gcloud''"
    by (simp add: example_cf_def)
  have e: "CredentialHelpers example_cf ''quay.io'' = None"
    by (simp add: example_cf_def)
  from CredentialsStore_priority [of ?g "''gcr.io''"] a
  have f: "CredentialsStore ?g ''gcr.io'' = NativeStore ?g ''osxkeychain''"
    by simp
  from CredentialsStore_priority [of example_cf "''gcr.io''" "''gcloud''"] c d
  have g: "CredentialsStore example_cf ''gcr.io'' = NativeStore example_cf ''gcloud''"
    by blast
  from CredentialsStore_priority [of example_cf "''quay.io''"] c e
  have h: "CredentialsStore example_cf ''quay.io'' = FileStore example_cf"
    by blast
  from a b c d e f g h show ?thesis by blast
qed

subsection \<open>The environment backend and the reference\<close>

text \<open>
  Claim C10. The environment backend does not look at the reference: under the same
  environment (and from the same trace) it returns the same result for any two
  references.
\<close>

theorem authFromEnv_ignores_reference:
  "authFromEnv X ref1 t = authFromEnv X ref2 t"
  by (simp add: authFromEnv_def)

theorem authFromEnv_ignores_reference_witness:
  "authFromEnv (example_externals [''REPO_USER'' \<mapsto> ''alice'', ''REPO_PASS'' \<mapsto> ''secret''] example_load)
       ''quay.io/team/app'' []
     = authFromEnv (example_externals [''REPO_USER'' \<mapsto> ''alice'', ''REPO_PASS'' \<mapsto> ''secret''] example_load)
       ''gcr.io/project/app'' []"
  by (rule authFromEnv_ignores_reference)

end
